theory Spec2Isabelle
  imports Complex_Main
begin

section \<open>Python values, dictionaries and exceptions\<close>

text \<open>
  The agents pass dynamically typed Python values around: tool results, JSON-decoded
  action inputs and the fields of the workflow state. \<open>pyval\<close> is the fragment of
  Python's value universe that these programs see. Integers and finite floats are
  embedded in the reals (the programs only compare them with the integer constants
  5, 0 and -5 and with 1e9, which Python does exactly); a NaN is not representable.
  A dictionary is an association list, in insertion order, with string keys.
  Strings are lists of characters with code points below 256.
\<close>

datatype pyval =
    PNone
  | PBool bool
  | PNum real
  | PStr string
  | PList "pyval list"
  | PDict "(string \<times> pyval) list"

type_synonym pydict = "(string \<times> pyval) list"

text \<open>An exception, with the text that \<open>str(e)\<close> gives.\<close>

datatype error =
    TypeError string
  | AttributeError string
  | IndexError string
  | UnboundLocalError string
  | JSONDecodeError string
  | MarkupError string
  | Exception string

fun str_error :: "error \<Rightarrow> string" where
  "str_error (TypeError m) = m"
| "str_error (AttributeError m) = m"
| "str_error (IndexError m) = m"
| "str_error (UnboundLocalError m) = m"
| "str_error (JSONDecodeError m) = m"
| "str_error (MarkupError m) = m"
| "str_error (Exception m) = m"

text \<open>\<open>d.get(k, default)\<close>\<close>

definition dict_get :: "pydict \<Rightarrow> string \<Rightarrow> pyval \<Rightarrow> pyval" where
  "dict_get d k dflt = (case map_of d k of None \<Rightarrow> dflt | Some v \<Rightarrow> v)"

text \<open>
  What the programs hand to \<open>console.print\<close> of the rich library: a panel around a
  text, a table (its title and its rows of cells) or a panel around Markdown. The
  text of a panel, the title and the cells of a table are read as console markup.
  A console is what \<open>console.print\<close> does with such an object: \<open>None\<close> when it
  returns, the exception when it raises (rich raises \<open>MarkupError\<close> for a text in
  which a closing tag, as in \<open>[/x]\<close>, matches no open tag). The model has a call of
  the console wherever the programs print text that comes from their inputs, from the
  tools or from the language model. Prints of literal texts, of numbers and of the
  fixed indicator labels always return; they are left out, and so is logging.
\<close>

datatype renderable =
    Panel string
  | Table string "(string \<times> string) list"
  | Markdown string

type_synonym console = "renderable \<Rightarrow> error option"

text \<open>
  \<open>x > c\<close> for a numeric constant \<open>c\<close>: defined on numbers (\<open>bool\<close> is a subclass of
  \<open>int\<close> in Python), a \<open>TypeError\<close> on everything else.
\<close>

definition py_gt :: "pyval \<Rightarrow> real \<Rightarrow> error + bool" where
  "py_gt x c =
     (case x of
        PNum r \<Rightarrow> Inr (r > c)
      | PBool b \<Rightarrow> Inr ((if b then 1 else 0) > c)
      | _ \<Rightarrow> Inl (TypeError ''not supported between instances''))"

section \<open>The fixed-stage workflow: state and result\<close>

text \<open>
  \<open>AgentState\<close> of \<open>graph_agent.py\<close>. The field \<open>action\<close> is named \<open>req_action\<close>
  here, since \<open>AgentStep\<close> of the ReAct agent has a field \<open>action\<close> too.
\<close>

record AgentState =
  symbol :: string
  req_action :: string
  price_data :: pydict
  technical_indicators :: pydict
  sentiment_data :: pydict
  analysis_result :: string
  decision :: string
  messages :: "pyval list"

subsection \<open>Node 2: technical analysis\<close>

text \<open>
  The body of the \<open>try\<close> block of \<open>technical_analysis_node\<close>: the three values read
  with their default 0, the chain of comparisons, then the volume comparison.
  \<open>current_price\<close> is read and never used. What a verbose agent prints in this
  node is a literal panel text and a table of the fixed indicator labels.
\<close>

definition technical_analysis_try :: "pydict \<Rightarrow> error + pydict" where
  "technical_analysis_try pd =
     (let current_price = dict_get pd ''current_price'' (PNum 0);
          price_change_24h = dict_get pd ''price_change_percentage_24h'' (PNum 0);
          volume_24h = dict_get pd ''total_volume'' (PNum 0);
          trend_signal =
            (case py_gt price_change_24h 5 of
               Inl e \<Rightarrow> Inl e
             | Inr True \<Rightarrow> Inr [(''trend'', PStr ''Strong Uptrend''), (''signal'', PStr ''BUY'')]
             | Inr False \<Rightarrow>
            (case py_gt price_change_24h 0 of
               Inl e \<Rightarrow> Inl e
             | Inr True \<Rightarrow> Inr [(''trend'', PStr ''Uptrend''), (''signal'', PStr ''HOLD'')]
             | Inr False \<Rightarrow>
            (case py_gt price_change_24h (- 5) of
               Inl e \<Rightarrow> Inl e
             | Inr True \<Rightarrow> Inr [(''trend'', PStr ''Downtrend''), (''signal'', PStr ''HOLD'')]
             | Inr False \<Rightarrow>
                 Inr [(''trend'', PStr ''Strong Downtrend''), (''signal'', PStr ''SELL'')])))
      in case trend_signal of
           Inl e \<Rightarrow> Inl e
         | Inr indicators \<Rightarrow>
             (case py_gt volume_24h 1000000000 of
                Inl e \<Rightarrow> Inl e
              | Inr high \<Rightarrow>
                  Inr (indicators @
                       [(''volume_status'', PStr (if high then ''High'' else ''Normal''))])))"

definition technical_analysis_node :: "AgentState \<Rightarrow> AgentState" where
  "technical_analysis_node state =
     (case technical_analysis_try (price_data state) of
        Inr indicators \<Rightarrow> state\<lparr>technical_indicators := indicators\<rparr>
      | Inl e \<Rightarrow> state\<lparr>technical_indicators := []\<rparr>)"

subsection \<open>The tools and the agent\<close>

text \<open>
  \<open>NotificationTool\<close> of \<open>notification_tools.py\<close>. The two webhook URLs come from the
  environment. \<open>http_post url payload\<close> stands for
  \<open>requests.post(url, json=payload, timeout=10)\<close> followed by \<open>raise_for_status()\<close>:
  \<open>None\<close> when both return, the exception otherwise. \<open>tool_console\<close> is the console
  of the module.
\<close>

record NotificationTool =
  slack_webhook :: string
  discord_webhook :: string
  http_post :: "string \<Rightarrow> pydict \<Rightarrow> error option"
  tool_console :: console

text \<open>\<open>_send_console\<close> prints the panel first; if that raises, so does the method.\<close>

definition send_console :: "NotificationTool \<Rightarrow> string \<Rightarrow> error + pydict" where
  "send_console tool message =
     (case tool_console tool (Panel message) of
        Some e \<Rightarrow> Inl e
      | None \<Rightarrow>
          Inr [(''success'', PBool True), (''channel'', PStr ''console''),
               (''message'', PStr message)])"

text \<open>
  \<open>_send_slack\<close> and \<open>_send_discord\<close> return a failure report for a missing webhook
  and for any exception of the request; they do not raise.
\<close>

definition send_slack :: "NotificationTool \<Rightarrow> string \<Rightarrow> error + pydict" where
  "send_slack tool message =
     (if slack_webhook tool = [] then
        Inr [(''success'', PBool False), (''channel'', PStr ''slack''),
             (''error'', PStr ''Webhook not configured'')]
      else case http_post tool (slack_webhook tool) [(''text'', PStr message)] of
             None \<Rightarrow>
               Inr [(''success'', PBool True), (''channel'', PStr ''slack''),
                    (''message'', PStr message)]
           | Some e \<Rightarrow>
               Inr [(''success'', PBool False), (''channel'', PStr ''slack''),
                    (''error'', PStr (str_error e))])"

definition send_discord :: "NotificationTool \<Rightarrow> string \<Rightarrow> error + pydict" where
  "send_discord tool message =
     (if discord_webhook tool = [] then
        Inr [(''success'', PBool False), (''channel'', PStr ''discord''),
             (''error'', PStr ''Webhook not configured'')]
      else case http_post tool (discord_webhook tool) [(''content'', PStr message)] of
             None \<Rightarrow>
               Inr [(''success'', PBool True), (''channel'', PStr ''discord''),
                    (''message'', PStr message)]
           | Some e \<Rightarrow>
               Inr [(''success'', PBool False), (''channel'', PStr ''discord''),
                    (''error'', PStr (str_error e))])"

text \<open>
  \<open>NotificationTool.run\<close>: the dispatch on the channel name, inside a handler that
  turns an exception of the sender into a failure report with the requested channel
  name and the text of the exception.
\<close>

definition NotificationTool_run :: "NotificationTool \<Rightarrow> string \<Rightarrow> string \<Rightarrow> pydict" where
  "NotificationTool_run tool message channel =
     (case (if channel = ''console'' then send_console tool message
            else if channel = ''slack'' then send_slack tool message
            else if channel = ''discord'' then send_discord tool message
            else send_console tool message) of
        Inr sent \<Rightarrow> sent
      | Inl e \<Rightarrow>
          [(''success'', PBool False), (''channel'', PStr channel),
           (''error'', PStr (str_error e))])"

text \<open>
  \<open>CryptoAnalysisGraph\<close>: the provider name, the \<open>verbose\<close> flag, the three tools
  and what the workflow takes from outside: \<open>llm_generate\<close> is the request to the
  configured provider's client (the response text, or the exception it raises),
  \<open>py_str\<close> is Python's \<open>str\<close> on values, which the f-strings and the table apply to
  the dictionaries and their values, and \<open>graph_console\<close> is the console of the module.
\<close>

record CryptoAnalysisGraph =
  llm_provider :: string
  graph_verbose :: bool
  graph_console :: console
  llm_generate :: "string \<Rightarrow> error + string"
  price_tool :: "string \<Rightarrow> error + pydict"
  news_tool :: "string \<Rightarrow> error + pydict"
  notification_tool :: NotificationTool
  py_str :: "pyval \<Rightarrow> string"

text \<open>\<open>AnalysisResult\<close>; its field \<open>symbol\<close> is \<open>result_symbol\<close> here.\<close>

record AnalysisResult =
  result_symbol :: string
  recommendation :: pyval
  confidence :: real
  reasoning :: string
  data :: pydict

definition nl :: char where
  "nl = CHR 0x0A"

definition dq :: char where
  "dq = CHR 0x22"

text \<open>How an f-string renders a value: a string as itself, anything else with \<open>str\<close>.\<close>

definition py_format :: "(pyval \<Rightarrow> string) \<Rightarrow> pyval \<Rightarrow> string" where
  "py_format str v = (case v of PStr s \<Rightarrow> s | _ \<Rightarrow> str v)"

subsection \<open>Node 1: collect\<close>

text \<open>
  The panel that the node prints before its \<open>try\<close> block when the agent is verbose;
  it shows the symbol, and an exception of this print leaves the node.
\<close>

definition collect_panel :: "CryptoAnalysisGraph \<Rightarrow> AgentState \<Rightarrow> error option" where
  "collect_panel agent state =
     (if graph_verbose agent
      then graph_console agent
             (Panel (''[cyan]Collecting data for '' @ symbol state @ ''...[/cyan]''))
      else None)"

text \<open>
  The \<open>try\<close> block: the tool's result is stored; a verbose agent then prints it as a
  table, one row \<open>(str(key), str(value))\<close> per entry. If the tool or the print
  raises, the handler stores the empty dictionary.
\<close>

definition collect_data_node :: "CryptoAnalysisGraph \<Rightarrow> AgentState \<Rightarrow> error + AgentState" where
  "collect_data_node agent state =
     (case collect_panel agent state of
        Some e \<Rightarrow> Inl e
      | None \<Rightarrow>
          (case price_tool agent (symbol state) of
             Inl e \<Rightarrow> Inr (state\<lparr>price_data := []\<rparr>)
           | Inr pd \<Rightarrow>
               if graph_verbose agent then
                 (case graph_console agent
                         (Table (symbol state @ '' Price Data'')
                            (map (\<lambda>(k, v). (k, py_format (py_str agent) v)) pd)) of
                    None \<Rightarrow> Inr (state\<lparr>price_data := pd\<rparr>)
                  | Some e \<Rightarrow> Inr (state\<lparr>price_data := []\<rparr>))
               else Inr (state\<lparr>price_data := pd\<rparr>)))"

subsection \<open>Node 3: sentiment\<close>

text \<open>\<open>[article.get("title", "") for article in ...]\<close>: every article must be a dictionary.\<close>

fun article_titles :: "pyval list \<Rightarrow> error + pyval list" where
  "article_titles [] = Inr []"
| "article_titles (PDict d # rest) =
     (case article_titles rest of
        Inl e \<Rightarrow> Inl e
      | Inr ts \<Rightarrow> Inr (dict_get d ''title'' (PStr []) # ts))"
| "article_titles (a # rest) = Inl (AttributeError ''object has no attribute get'')"

text \<open>
  The body of the \<open>try\<close> block after the news tool has returned: \<open>len\<close> of the
  articles, then the titles of the slice \<open>[:3]\<close>. A list passes; so does the empty
  string (no element to call \<open>get\<close> on); every other value raises in \<open>len\<close>, in the
  slice or in \<open>get\<close>. What a verbose agent prints in this node is a literal panel
  text, the number of articles and the label "Neutral".
\<close>

definition sentiment_of_news :: "pydict \<Rightarrow> error + pydict" where
  "sentiment_of_news news_data =
     (case dict_get news_data ''articles'' (PList []) of
        PList articles \<Rightarrow>
          (case article_titles (take 3 articles) of
             Inl e \<Rightarrow> Inl e
           | Inr titles \<Rightarrow>
               Inr [(''news_count'', PNum (real (length articles))),
                    (''overall_sentiment'', PStr ''Neutral''),
                    (''news_headlines'', PList titles)])
      | PStr s \<Rightarrow>
          (if s = [] then
             Inr [(''news_count'', PNum 0),
                  (''overall_sentiment'', PStr ''Neutral''),
                  (''news_headlines'', PList [])]
           else Inl (AttributeError ''str object has no attribute get''))
      | PDict d \<Rightarrow> Inl (TypeError ''unhashable type: slice'')
      | _ \<Rightarrow> Inl (TypeError ''object has no len()''))"

definition sentiment_analysis_node :: "CryptoAnalysisGraph \<Rightarrow> AgentState \<Rightarrow> AgentState" where
  "sentiment_analysis_node agent state =
     (case news_tool agent (symbol state) of
        Inl e \<Rightarrow> state\<lparr>sentiment_data := []\<rparr>
      | Inr news_data \<Rightarrow>
          (case sentiment_of_news news_data of
             Inl e \<Rightarrow> state\<lparr>sentiment_data := []\<rparr>
           | Inr sentiment \<Rightarrow> state\<lparr>sentiment_data := sentiment\<rparr>))"

subsection \<open>Node 4: decision\<close>

definition decision_context :: "CryptoAnalysisGraph \<Rightarrow> AgentState \<Rightarrow> string" where
  "decision_context agent state =
     [nl] @ ''Analyze the following cryptocurrency data and provide an investment recommendation:''
     @ [nl, nl] @ ''Symbol: '' @ symbol state
     @ [nl, nl] @ ''Price Data:'' @ [nl] @ py_str agent (PDict (price_data state))
     @ [nl, nl] @ ''Technical Indicators:'' @ [nl] @ py_str agent (PDict (technical_indicators state))
     @ [nl, nl] @ ''Sentiment Data:'' @ [nl] @ py_str agent (PDict (sentiment_data state))
     @ [nl, nl] @ ''Provide a clear recommendation (BUY/HOLD/SELL) with reasoning and confidence level (0-100%).''
     @ [nl] @ ''Format your response as JSON:''
     @ [nl] @ ''{''
     @ [nl] @ ''    '' @ [dq] @ ''recommendation'' @ [dq] @ '': '' @ [dq] @ ''BUY/HOLD/SELL'' @ [dq] @ '',''
     @ [nl] @ ''    '' @ [dq] @ ''confidence'' @ [dq] @ '': 85,''
     @ [nl] @ ''    '' @ [dq] @ ''reasoning'' @ [dq] @ '': '' @ [dq] @ ''Your detailed reasoning here'' @ [dq]
     @ [nl] @ ''}'' @ [nl]"

text \<open>
  The three provider branches differ in the request only. With any other provider name
  no branch runs and \<open>decision_text\<close> is unbound at the assignment. The response is
  stored, and a verbose agent prints it in a panel. If the request, the assignment or
  the print raises, the handler stores the error text.
\<close>

definition generate_decision_node :: "CryptoAnalysisGraph \<Rightarrow> AgentState \<Rightarrow> AgentState" where
  "generate_decision_node agent state =
     (let context = decision_context agent state;
          response =
            (if llm_provider agent = ''openai'' then llm_generate agent context
             else if llm_provider agent = ''anthropic'' then llm_generate agent context
             else if llm_provider agent = ''gemini'' then llm_generate agent context
             else Inl (UnboundLocalError ''decision_text''))
      in case response of
           Inl e \<Rightarrow> state\<lparr>decision := ''Error generating decision''\<rparr>
         | Inr decision_text \<Rightarrow>
             if graph_verbose agent then
               (case graph_console agent (Panel decision_text) of
                  None \<Rightarrow> state\<lparr>decision := decision_text\<rparr>
                | Some e \<Rightarrow> state\<lparr>decision := ''Error generating decision''\<rparr>)
             else state\<lparr>decision := decision_text\<rparr>)"

subsection \<open>Node 5: notify\<close>

definition notification_message :: "CryptoAnalysisGraph \<Rightarrow> AgentState \<Rightarrow> string" where
  "notification_message agent state =
     [nl] @ ''Crypto Analysis Complete: '' @ symbol state
     @ [nl, nl] @ ''Decision: '' @ decision state
     @ [nl, nl] @ ''Technical Signal: ''
     @ py_format (py_str agent) (dict_get (technical_indicators state) ''signal'' (PStr ''N/A''))
     @ [nl] @ ''Trend: ''
     @ py_format (py_str agent) (dict_get (technical_indicators state) ''trend'' (PStr ''N/A''))
     @ [nl, nl] @ ''This is an automated analysis. Always do your own research before investing.''
     @ [nl]"

text \<open>
  The node sends the message on the console channel, drops what the tool returns
  (the tool reports a failure, it does not raise) and hands the state back.
\<close>

definition notification_node :: "CryptoAnalysisGraph \<Rightarrow> AgentState \<Rightarrow> AgentState" where
  "notification_node agent state =
     (let message = notification_message agent state;
          sent = NotificationTool_run (notification_tool agent) message ''console''
      in state)"

subsection \<open>Execution\<close>

definition initial_state :: "string \<Rightarrow> string \<Rightarrow> AgentState" where
  "initial_state symb act =
     \<lparr>symbol = symb, req_action = act, price_data = [], technical_indicators = [],
      sentiment_data = [], analysis_result = [], decision = [], messages = []\<rparr>"

text \<open>
  The five nodes in the order of the graph's edges, which is also the order of the
  sequential fallback of \<open>run\<close>. Only the first node can raise.
\<close>

definition run_nodes :: "CryptoAnalysisGraph \<Rightarrow> AgentState \<Rightarrow> error + AgentState" where
  "run_nodes agent state0 =
     (case collect_data_node agent state0 of
        Inl e \<Rightarrow> Inl e
      | Inr state1 \<Rightarrow>
          (let state2 = technical_analysis_node state1;
               state3 = sentiment_analysis_node agent state2;
               state4 = generate_decision_node agent state3;
               state5 = notification_node agent state4
           in Inr state5))"

text \<open>
  \<open>run\<close> prints a panel with the symbol before anything else, outside any handler
  and whatever \<open>verbose\<close> is, runs the nodes and builds the result.
\<close>

definition graph_run :: "CryptoAnalysisGraph \<Rightarrow> string \<Rightarrow> string \<Rightarrow> error + AnalysisResult" where
  "graph_run agent symb act =
     (case graph_console agent (Panel (''[bold]Starting analysis for '' @ symb @ ''[/bold]'')) of
        Some e \<Rightarrow> Inl e
      | None \<Rightarrow>
          (case run_nodes agent (initial_state symb act) of
             Inl e \<Rightarrow> Inl e
           | Inr final_state \<Rightarrow>
               Inr \<lparr>result_symbol = symb,
                    recommendation =
                      dict_get (technical_indicators final_state) ''signal'' (PStr ''HOLD''),
                    confidence = 0.75,
                    reasoning = decision final_state,
                    data = [(''price_data'', PDict (price_data final_state)),
                            (''technical_indicators'', PDict (technical_indicators final_state)),
                            (''sentiment_data'', PDict (sentiment_data final_state))]\<rparr>))"

section \<open>Python string operations\<close>

text \<open>
  The ReAct agent reads the model's text with \<open>in\<close>, \<open>startswith\<close>, \<open>split\<close>,
  \<open>replace\<close> and \<open>strip\<close>. They are written out here on character lists.
\<close>

definition sq :: char where
  "sq = CHR 0x27"

definition py_startswith :: "string \<Rightarrow> string \<Rightarrow> bool" where
  "py_startswith s p = (take (length p) s = p)"

text \<open>\<open>sub in s\<close>: \<open>sub\<close> occurs at some position of \<open>s\<close>.\<close>

fun py_contains :: "string \<Rightarrow> string \<Rightarrow> bool" where
  "py_contains sub [] = (sub = [])"
| "py_contains sub (c # cs) = (py_startswith (c # cs) sub \<or> py_contains sub cs)"

text \<open>
  The text before and the text after the leftmost occurrence of \<open>sep\<close> in \<open>s\<close>
  (the first and the third component of \<open>s.partition(sep)\<close>), if there is one.
\<close>

fun py_partition :: "string \<Rightarrow> string \<Rightarrow> (string \<times> string) option" where
  "py_partition [] sep = (if sep = [] then Some ([], []) else None)"
| "py_partition (c # cs) sep =
     (if py_startswith (c # cs) sep then Some ([], drop (length sep) (c # cs))
      else case py_partition cs sep of
             None \<Rightarrow> None
           | Some (before, after) \<Rightarrow> Some (c # before, after))"

text \<open>
  \<open>s.split(sep)\<close> cuts at every occurrence of \<open>sep\<close>, found from the left and not
  overlapping. Python raises \<open>ValueError\<close> for an empty separator; every call in the
  agent passes a non-empty literal, and the equation returns \<open>[s]\<close> there.
\<close>

function py_split :: "string \<Rightarrow> string \<Rightarrow> string list" where
  "py_split s sep =
     (if sep = [] then [s]
      else case py_partition s sep of
             None \<Rightarrow> [s]
           | Some (before, after) \<Rightarrow> before # py_split after sep)"
  by pat_completeness auto
termination
proof (relation "measure (\<lambda>(s, sep). length s)")
  show "wf (measure (\<lambda>(s, sep). length s))"
    by simp
next
  fix s sep :: string and x before after
  assume "sep \<noteq> []" and "py_partition s sep = Some x" and "(before, after) = x"
  then have "py_partition s sep = Some (before, after)"
    by simp
  then have "length after < length s"
    using \<open>sep \<noteq> []\<close>
    by (induction s arbitrary: before) (auto split: if_splits option.splits)
  then show "((after, sep), (s, sep)) \<in> measure (\<lambda>(s, sep). length s)"
    by simp
qed

declare py_split.simps [simp del]

fun py_join :: "string \<Rightarrow> string list \<Rightarrow> string" where
  "py_join sep [] = []"
| "py_join sep [x] = x"
| "py_join sep (x # y # ys) = x @ sep @ py_join sep (y # ys)"

text \<open>
  \<open>s.replace(old, new)\<close> replaces the occurrences that \<open>split\<close> cuts at:
  for a non-empty \<open>old\<close> it is \<open>new.join(s.split(old))\<close>.
\<close>

definition py_replace :: "string \<Rightarrow> string \<Rightarrow> string \<Rightarrow> string" where
  "py_replace s old new = py_join new (py_split s old)"

text \<open>
  \<open>str.isspace\<close> on the code points below 256: tab, line feed, vertical tab, form
  feed, carriage return, the four separators 0x1C to 0x1F, space, 0x85 and 0xA0.
\<close>

definition py_isspace :: "char \<Rightarrow> bool" where
  "py_isspace c \<longleftrightarrow>
     c \<in> set [CHR 0x09, CHR 0x0A, CHR 0x0B, CHR 0x0C, CHR 0x0D, CHR 0x1C, CHR 0x1D,
              CHR 0x1E, CHR 0x1F, CHR 0x20, CHR 0x85, CHR 0xA0]"

definition py_strip :: "string \<Rightarrow> string" where
  "py_strip s = rev (dropWhile py_isspace (rev (dropWhile py_isspace s)))"

text \<open>\<open>xs[i]\<close> for a non-negative index.\<close>

definition py_index :: "'a list \<Rightarrow> nat \<Rightarrow> error + 'a" where
  "py_index xs i =
     (if i < length xs then Inr (xs ! i) else Inl (IndexError ''list index out of range''))"

text \<open>Truth value of a Python value, as \<open>if x:\<close> and \<open>and\<close> test it.\<close>

fun py_truthy :: "pyval \<Rightarrow> bool" where
  "py_truthy PNone = False"
| "py_truthy (PBool b) = b"
| "py_truthy (PNum r) = (r \<noteq> 0)"
| "py_truthy (PStr s) = (s \<noteq> [])"
| "py_truthy (PList xs) = (xs \<noteq> [])"
| "py_truthy (PDict d) = (d \<noteq> [])"

section \<open>The ReAct agent\<close>

text \<open>
  \<open>AgentStep\<close> of \<open>react_agent.py\<close>. An absent \<open>action_input\<close> is \<open>PNone\<close>: Python
  has one \<open>None\<close>, whether no "Action Input:" line was found or the line decoded to
  JSON \<open>null\<close>.
\<close>

record AgentStep =
  thought :: string
  action :: "string option"
  action_input :: pyval
  observation :: "string option"

text \<open>
  A tool has a description and a \<open>run\<close> method taking keyword arguments. The tools
  call external services, so a call is a function of the loop iteration in which it
  happens as well as of its arguments; it returns a value or raises (a keyword that
  the method does not accept raises \<open>TypeError\<close> there). \<open>unpack_error x\<close> is the
  \<open>TypeError\<close> of the call \<open>tool.run(**x)\<close> for an \<open>x\<close> that is not a mapping; its
  text, which names the method and the type of \<open>x\<close>, is the interpreter's.
\<close>

record Tool =
  description :: string
  tool_run :: "nat \<Rightarrow> pydict \<Rightarrow> error + pyval"
  unpack_error :: "pyval \<Rightarrow> error"

text \<open>
  \<open>CryptoReActAgent\<close>. \<open>call_llm i prompt\<close> is \<open>_call_llm\<close> in iteration \<open>i\<close>: the
  response text, or the exception that the provider's client raises (a response that
  is not text makes the \<open>in\<close> test that follows raise, and stands for an exception as
  well). \<open>json_loads\<close>, \<open>json_dumps\<close> and \<open>str_result\<close> are \<open>json.loads\<close>,
  \<open>json.dumps\<close> (with its \<open>indent\<close> argument, if one is given) and \<open>str\<close> of the
  Python library. \<open>react_console\<close> is the console of the module.
\<close>

record CryptoReActAgent =
  max_iterations :: int
  react_verbose :: bool
  react_console :: console
  tools :: "(string \<times> Tool) list"
  call_llm :: "nat \<Rightarrow> string \<Rightarrow> error + string"
  json_loads :: "string \<Rightarrow> error + pyval"
  json_dumps :: "nat option \<Rightarrow> pyval \<Rightarrow> string"
  str_result :: "pyval \<Rightarrow> string"

subsection \<open>The prompt\<close>

definition format_tools :: "CryptoReActAgent \<Rightarrow> string" where
  "format_tools agent =
     py_join [nl] (map (\<lambda>(name, tool). ''- '' @ name @ '': '' @ description tool) (tools agent))"

definition format_step :: "CryptoReActAgent \<Rightarrow> AgentStep \<Rightarrow> string list" where
  "format_step agent step =
     [''Thought: '' @ thought step]
     @ (case action step of
          None \<Rightarrow> []
        | Some a \<Rightarrow>
            if a = [] then []
            else [''Action: '' @ a,
                  ''Action Input: '' @ json_dumps agent None (action_input step)])
     @ (case observation step of
          None \<Rightarrow> []
        | Some ob \<Rightarrow> if ob = [] then [] else [''Observation: '' @ ob])"

definition format_history :: "CryptoReActAgent \<Rightarrow> AgentStep list \<Rightarrow> string" where
  "format_history agent hist =
     (if hist = [] then []
      else py_join [nl] (concat (map (format_step agent) hist)))"

text \<open>\<open>REACT_PROMPT_TEMPLATE.format(...)\<close>\<close>

definition react_prompt :: "CryptoReActAgent \<Rightarrow> string \<Rightarrow> AgentStep list \<Rightarrow> string" where
  "react_prompt agent question hist =
     ''You are a cryptocurrency analysis assistant with access to various tools.''
     @ [nl, nl] @ ''Available Tools:''
     @ [nl] @ format_tools agent
     @ [nl, nl] @ ''Use the following format:''
     @ [nl, nl] @ ''Thought: Think about what information you need''
     @ [nl] @ ''Action: the action to take, should be one of [''
            @ py_join '', '' (map fst (tools agent)) @ '']''
     @ [nl] @ ''Action Input: the input to the action (JSON format)''
     @ [nl] @ ''Observation: the result of the action''
     @ [nl] @ ''... (this Thought/Action/Action Input/Observation can repeat N times)''
     @ [nl] @ ''Thought: I now know the final answer''
     @ [nl] @ ''Final Answer: the final answer to the original question''
     @ [nl, nl] @ ''Begin!''
     @ [nl, nl] @ ''Question: '' @ question
     @ [nl] @ format_history agent hist
     @ [nl] @ ''Thought:''"

subsection \<open>Parsing the response\<close>

text \<open>
  The loop of \<open>_parse_action\<close> over the lines, with the pair found so far. A later
  line of the same kind replaces an earlier one. Only \<open>JSONDecodeError\<close> is handled
  at the decoding; any other exception leaves the function.
\<close>

fun parse_lines ::
  "CryptoReActAgent \<Rightarrow> string list \<Rightarrow> string option \<times> pyval \<Rightarrow> error + (string option \<times> pyval)"
where
  "parse_lines agent [] found = Inr found"
| "parse_lines agent (line # rest) (act, inp) =
     (if py_startswith line ''Action:'' then
        (case py_index (py_split line ''Action:'') 1 of
           Inl e \<Rightarrow> Inl e
         | Inr t \<Rightarrow> parse_lines agent rest (Some (py_strip t), inp))
      else if py_startswith line ''Action Input:'' then
        (case py_index (py_split line ''Action Input:'') 1 of
           Inl e \<Rightarrow> Inl e
         | Inr t \<Rightarrow>
             (let input_text = py_strip t
              in case json_loads agent input_text of
                   Inr v \<Rightarrow> parse_lines agent rest (act, v)
                 | Inl (JSONDecodeError m) \<Rightarrow>
                     parse_lines agent rest (act, PDict [(''query'', PStr input_text)])
                 | Inl e \<Rightarrow> Inl e))
      else parse_lines agent rest (act, inp))"

definition parse_action :: "CryptoReActAgent \<Rightarrow> string \<Rightarrow> error + (string option \<times> pyval)" where
  "parse_action agent text = parse_lines agent (py_split (py_strip text) [nl]) (None, PNone)"

text \<open>
  \<open>_execute_tool\<close>: look the name up among the registered tools, pass the input as
  keyword arguments (which raises \<open>TypeError\<close> unless it is a dictionary), and turn
  the result, or the exception, into text.
\<close>

definition execute_tool :: "CryptoReActAgent \<Rightarrow> nat \<Rightarrow> string \<Rightarrow> pyval \<Rightarrow> string" where
  "execute_tool agent i act inp =
     (case map_of (tools agent) act of
        None \<Rightarrow> ''Error: Tool '' @ [sq] @ act @ [sq] @ '' not found.''
      | Some tool \<Rightarrow>
          (case (case inp of
                   PDict kwargs \<Rightarrow> tool_run tool i kwargs
                 | _ \<Rightarrow> Inl (unpack_error tool inp)) of
             Inr result \<Rightarrow> str_result agent result
           | Inl e \<Rightarrow> ''Error executing '' @ act @ '': '' @ str_error e))"

subsection \<open>The loop\<close>

text \<open>
  The state of a run: the history, whether the loop is still going, has returned an
  answer or has let an exception out, and the number of calls of \<open>_call_llm\<close> so far
  (a counter that the code does not keep; it is here to state how often the model is
  called).
\<close>

datatype status = Iterating | Returned string | Raised error

record loop_state =
  history :: "AgentStep list"
  status :: status
  llm_calls :: nat

text \<open>
  The body of the \<open>try\<close> block in \<open>run\<close>: the thought is the text before the first
  "Action:", without the "Thought:" markers, stripped.
\<close>

definition parse_response ::
  "CryptoReActAgent \<Rightarrow> string \<Rightarrow> error + (string \<times> string option \<times> pyval)" where
  "parse_response agent response =
     (case py_index (py_split response ''Action:'') 0 of
        Inl e \<Rightarrow> Inl e
      | Inr t \<Rightarrow>
          (let th = py_strip (py_replace t ''Thought:'' [])
           in case parse_action agent response of
                Inl e \<Rightarrow> Inl e
              | Inr (act, inp) \<Rightarrow> Inr (th, act, inp)))"

text \<open>
  The \<open>AgentStep\<close> that an iteration \<open>i\<close> builds from a response without the final
  marker: the parse (or the handler's defaults), then the tool call, which is made
  only if the action and the action input are both true in Python's sense.
\<close>

definition make_step :: "CryptoReActAgent \<Rightarrow> nat \<Rightarrow> string \<Rightarrow> AgentStep" where
  "make_step agent i response =
     (let (th, act, inp) =
            (case parse_response agent response of
               Inr parsed \<Rightarrow> parsed
             | Inl e \<Rightarrow> (''Reasoning...'', None, PNone));
          obs =
            (case act of
               None \<Rightarrow> None
             | Some a \<Rightarrow>
                 if a \<noteq> [] \<and> py_truthy inp
                 then Some (execute_tool agent i a inp)
                 else None)
      in \<lparr>thought = th, action = act, action_input = inp, observation = obs\<rparr>)"

text \<open>
  \<open>_display_step\<close>: nothing unless the agent is verbose; then a panel with the
  thought, a panel with the action and its input if the action is true in Python's
  sense, and a panel with the observation if that is true. The first print that
  raises ends it.
\<close>

definition display_step :: "CryptoReActAgent \<Rightarrow> AgentStep \<Rightarrow> error option" where
  "display_step agent step =
     (if \<not> react_verbose agent then None
      else case react_console agent (Panel (thought step)) of
             Some e \<Rightarrow> Some e
           | None \<Rightarrow>
               (case (case action step of
                        None \<Rightarrow> None
                      | Some a \<Rightarrow>
                          if a = [] then None
                          else react_console agent
                                 (Panel (''[yellow]'' @ a @ ''[/yellow]'' @ [nl] @ ''Input: ''
                                         @ json_dumps agent (Some 2) (action_input step)))) of
                  Some e \<Rightarrow> Some e
                | None \<Rightarrow>
                    (case observation step of
                       None \<Rightarrow> None
                     | Some ob \<Rightarrow>
                         if ob = [] then None else react_console agent (Panel ob))))"

text \<open>
  One pass through the body of the \<open>for\<close> loop, in iteration \<open>i\<close>. The answer is
  printed as Markdown in a panel before it is returned, and a step is displayed after
  it has been appended; an exception of either print leaves \<open>run\<close>.
\<close>

definition iteration :: "CryptoReActAgent \<Rightarrow> string \<Rightarrow> nat \<Rightarrow> loop_state \<Rightarrow> loop_state" where
  "iteration agent question i st =
     (let prompt = react_prompt agent question (history st);
          st1 = st\<lparr>llm_calls := Suc (llm_calls st)\<rparr>
      in case call_llm agent i prompt of
           Inl e \<Rightarrow> st1\<lparr>status := Raised e\<rparr>
         | Inr response \<Rightarrow>
             if py_contains ''Final Answer:'' response then
               (case py_index (py_split response ''Final Answer:'') 1 of
                  Inl e \<Rightarrow> st1\<lparr>status := Raised e\<rparr>
                | Inr t \<Rightarrow>
                    (let final_answer = py_strip t
                     in case react_console agent (Markdown final_answer) of
                          Some e \<Rightarrow> st1\<lparr>status := Raised e\<rparr>
                        | None \<Rightarrow> st1\<lparr>status := Returned final_answer\<rparr>))
             else
               (let step = make_step agent i response;
                    st2 = st1\<lparr>history := history st @ [step]\<rparr>
                in case display_step agent step of
                     Some e \<Rightarrow> st2\<lparr>status := Raised e\<rparr>
                   | None \<Rightarrow> st2))"

text \<open>
  \<open>for iteration in range(n)\<close>, from iteration \<open>i\<close> on with \<open>n\<close> passes left; a
  \<open>return\<close> or an exception ends it.
\<close>

fun for_loop :: "CryptoReActAgent \<Rightarrow> string \<Rightarrow> nat \<Rightarrow> nat \<Rightarrow> loop_state \<Rightarrow> loop_state" where
  "for_loop agent question i 0 st = st"
| "for_loop agent question i (Suc n) st =
     (case status st of
        Iterating \<Rightarrow> for_loop agent question (Suc i) n (iteration agent question i st)
      | _ \<Rightarrow> st)"

text \<open>
  \<open>run\<close> on an agent whose history is \<open>old\<close>: the first statement empties the
  history, the second prints the question in a panel, outside any handler and
  whatever \<open>verbose\<close> is. \<open>run_upto k\<close> is the run stopped after at most \<open>k\<close> passes
  of the loop; \<open>run\<close> lets the loop take all \<open>range(max_iterations)\<close> passes and, if
  no pass has returned or raised, returns the fixed message.
\<close>

definition reset :: "AgentStep list \<Rightarrow> loop_state" where
  "reset old = \<lparr>history = [], status = Iterating, llm_calls = 0\<rparr>"

definition start :: "CryptoReActAgent \<Rightarrow> AgentStep list \<Rightarrow> string \<Rightarrow> loop_state" where
  "start agent old question =
     (case react_console agent (Panel (''[bold]'' @ question @ ''[/bold]'')) of
        Some e \<Rightarrow> (reset old)\<lparr>status := Raised e\<rparr>
      | None \<Rightarrow> reset old)"

definition run_upto :: "CryptoReActAgent \<Rightarrow> AgentStep list \<Rightarrow> string \<Rightarrow> nat \<Rightarrow> loop_state" where
  "run_upto agent old question k =
     for_loop agent question 0 (min k (nat (max_iterations agent))) (start agent old question)"

definition run :: "CryptoReActAgent \<Rightarrow> AgentStep list \<Rightarrow> string \<Rightarrow> loop_state" where
  "run agent old question =
     (let st = for_loop agent question 0 (nat (max_iterations agent)) (start agent old question)
      in case status st of
           Iterating \<Rightarrow> st\<lparr>status := Returned ''Max iterations reached.''\<rparr>
         | _ \<Rightarrow> st)"

subsection \<open>Example consoles and agents\<close>

text \<open>
  Two consoles for the examples. \<open>plain_console\<close> prints everything. \<open>markup_console\<close>
  does what rich does on the texts of the examples: it raises \<open>MarkupError\<close> for a
  panel text, a table title or a cell that contains the closing tag \<open>[/x]\<close>, which no
  text of the programs opens, and prints everything else.
\<close>

definition plain_console :: console where
  "plain_console r = None"

fun markup_texts :: "renderable \<Rightarrow> string list" where
  "markup_texts (Panel t) = [t]"
| "markup_texts (Table title rows) = title # concat (map (\<lambda>(k, v). [k, v]) rows)"
| "markup_texts (Markdown t) = []"

definition markup_console :: console where
  "markup_console r =
     (if list_ex (py_contains ''[/x]'') (markup_texts r)
      then Some (MarkupError ''closing tag [/x] does not match any open tag'')
      else None)"

text \<open>
  An agent for the examples: verbose, as by default; the model answers every prompt
  with the same text; one tool, "search", returns the text "found" whatever its
  arguments; \<open>json.loads\<close> is cut down to the one document \<open>{}\<close> and rejects
  everything else; \<open>str\<close> is the identity on text.
\<close>

definition search_tool :: Tool where
  "search_tool =
     \<lparr>description = ''Search the web for information.'',
      tool_run = (\<lambda>i kwargs. Inr (PStr ''found'')),
      unpack_error = (\<lambda>x. TypeError ''argument after ** must be a mapping'')\<rparr>"

definition scripted_agent :: "console \<Rightarrow> int \<Rightarrow> string \<Rightarrow> CryptoReActAgent" where
  "scripted_agent con n response =
     \<lparr>max_iterations = n,
      react_verbose = True,
      react_console = con,
      tools = [(''search'', search_tool)],
      call_llm = (\<lambda>i prompt. Inr response),
      json_loads = (\<lambda>s. if s = ''{}'' then Inr (PDict [])
                         else Inl (JSONDecodeError ''Expecting value'')),
      json_dumps = (\<lambda>indent v. ''{}''),
      str_result = py_format (\<lambda>v. ''{}'')\<rparr>"

text \<open>
  A workflow agent and a notification tool for the examples: the price tool raises,
  the news tool finds nothing, the model answers "BUY".
\<close>

definition example_notifier :: "console \<Rightarrow> NotificationTool" where
  "example_notifier con =
     \<lparr>slack_webhook = [], discord_webhook = [], http_post = (\<lambda>url payload. None),
      tool_console = con\<rparr>"


section \<open>Properties of the technical signal deriver\<close>

lemma technical_analysis_try_num:
  assumes "dict_get pd ''price_change_percentage_24h'' (PNum 0) = PNum v"
    and "dict_get pd ''total_volume'' (PNum 0) = PNum w"
  shows "technical_analysis_try pd =
     Inr ((if v > 5 then [(''trend'', PStr ''Strong Uptrend''), (''signal'', PStr ''BUY'')]
           else if v > 0 then [(''trend'', PStr ''Uptrend''), (''signal'', PStr ''HOLD'')]
           else if v > - 5 then [(''trend'', PStr ''Downtrend''), (''signal'', PStr ''HOLD'')]
           else [(''trend'', PStr ''Strong Downtrend''), (''signal'', PStr ''SELL'')])
          @ [(''volume_status'', PStr (if w > 1000000000 then ''High'' else ''Normal''))])"
  using assms by (simp add: technical_analysis_try_def py_gt_def Let_def)

text \<open>
  C1. For a numeric 24h percentage change \<open>v\<close> (and any current price, any numeric
  volume), the technical analysis stage stores signal BUY and trend "Strong Uptrend"
  when \<open>v > 5\<close>, HOLD and "Uptrend" when \<open>0 < v \<le> 5\<close>, HOLD and "Downtrend" when
  \<open>-5 < v \<le> 0\<close>, SELL and "Strong Downtrend" when \<open>v \<le> -5\<close>. The result depends on
  the current snapshot only.
\<close>

theorem technical_signal_thresholds:
  assumes "dict_get (price_data state) ''price_change_percentage_24h'' (PNum 0) = PNum v"
    and "dict_get (price_data state) ''total_volume'' (PNum 0) = PNum w"
  shows "let ind = technical_indicators (technical_analysis_node state);
             signal = dict_get ind ''signal'' PNone;
             trend = dict_get ind ''trend'' PNone
         in (v > 5 \<longrightarrow> signal = PStr ''BUY'' \<and> trend = PStr ''Strong Uptrend'') \<and>
            (0 < v \<and> v \<le> 5 \<longrightarrow> signal = PStr ''HOLD'' \<and> trend = PStr ''Uptrend'') \<and>
            (- 5 < v \<and> v \<le> 0 \<longrightarrow> signal = PStr ''HOLD'' \<and> trend = PStr ''Downtrend'') \<and>
            (v \<le> - 5 \<longrightarrow> signal = PStr ''SELL'' \<and> trend = PStr ''Strong Downtrend'')"
  by (simp add: technical_analysis_node_def technical_analysis_try_num [OF assms]
      dict_get_def Let_def)

theorem technical_signal_thresholds_witness:
  "(let ind = technical_indicators (technical_analysis_node
        ((initial_state ''BTC'' ''analyze'')\<lparr>price_data :=
           [(''current_price'', PNum 50000), (''total_volume'', PNum 50000000000),
            (''price_change_percentage_24h'', PNum 7)]\<rparr>))
    in (7::real) > 5 \<and> dict_get ind ''signal'' PNone = PStr ''BUY''
       \<and> dict_get ind ''trend'' PNone = PStr ''Strong Uptrend'')
   \<and> (let ind = technical_indicators (technical_analysis_node
        ((initial_state ''BTC'' ''analyze'')\<lparr>price_data :=
           [(''current_price'', PNum 50000), (''total_volume'', PNum 50000000000),
            (''price_change_percentage_24h'', PNum 5)]\<rparr>))
    in (0::real) < 5 \<and> (5::real) \<le> 5 \<and> dict_get ind ''signal'' PNone = PStr ''HOLD''
       \<and> dict_get ind ''trend'' PNone = PStr ''Uptrend'')
   \<and> (let ind = technical_indicators (technical_analysis_node (initial_state ''BTC'' ''analyze''))
    in - 5 < (0::real) \<and> (0::real) \<le> 0 \<and> dict_get ind ''signal'' PNone = PStr ''HOLD''
       \<and> dict_get ind ''trend'' PNone = PStr ''Downtrend'')
   \<and> (let ind = technical_indicators (technical_analysis_node
        ((initial_state ''BTC'' ''analyze'')\<lparr>price_data :=
           [(''total_volume'', PNum 3), (''price_change_percentage_24h'', PNum (- 5))]\<rparr>))
    in (- 5::real) \<le> - 5 \<and> dict_get ind ''signal'' PNone = PStr ''SELL''
       \<and> dict_get ind ''trend'' PNone = PStr ''Strong Downtrend'')"
  using
    technical_signal_thresholds [of "(initial_state ''BTC'' ''analyze'')\<lparr>price_data :=
           [(''current_price'', PNum 50000), (''total_volume'', PNum 50000000000),
            (''price_change_percentage_24h'', PNum 7)]\<rparr>" 7 50000000000]
    technical_signal_thresholds [of "(initial_state ''BTC'' ''analyze'')\<lparr>price_data :=
           [(''current_price'', PNum 50000), (''total_volume'', PNum 50000000000),
            (''price_change_percentage_24h'', PNum 5)]\<rparr>" 5 50000000000]
    technical_signal_thresholds [of "initial_state ''BTC'' ''analyze''" 0 0]
    technical_signal_thresholds [of "(initial_state ''BTC'' ''analyze'')\<lparr>price_data :=
           [(''total_volume'', PNum 3), (''price_change_percentage_24h'', PNum (- 5))]\<rparr>" "- 5" 3]
  by (simp add: dict_get_def initial_state_def Let_def)

text \<open>
  C6. For a numeric 24h volume \<open>w\<close> (and a numeric price change), the technical
  analysis stage stores volume_status "High" if and only if \<open>w > 1,000,000,000\<close>, and
  "Normal" otherwise; at exactly 1e9 it is "Normal" (the witness).
\<close>

theorem volume_status_threshold:
  assumes "dict_get (price_data state) ''price_change_percentage_24h'' (PNum 0) = PNum v"
    and "dict_get (price_data state) ''total_volume'' (PNum 0) = PNum w"
  shows "let volume_status =
               dict_get (technical_indicators (technical_analysis_node state)) ''volume_status'' PNone
         in (volume_status = PStr ''High'' \<longleftrightarrow> w > 1000000000) \<and>
            (volume_status = PStr ''Normal'' \<longleftrightarrow> \<not> w > 1000000000)"
  by (simp add: technical_analysis_node_def technical_analysis_try_num [OF assms]
      dict_get_def Let_def)

theorem volume_status_threshold_witness:
  "let volume_status =
         dict_get (technical_indicators (technical_analysis_node
           ((initial_state ''BTC'' ''analyze'')\<lparr>price_data :=
              [(''total_volume'', PNum 1000000000)]\<rparr>))) ''volume_status'' PNone
   in volume_status = PStr ''Normal'' \<and> volume_status \<noteq> PStr ''High''"
  using volume_status_threshold [of "(initial_state ''BTC'' ''analyze'')\<lparr>price_data :=
              [(''total_volume'', PNum 1000000000)]\<rparr>" 0 1000000000]
  by (simp add: dict_get_def initial_state_def Let_def)

section \<open>Properties of the fixed-stage workflow\<close>


lemma sentiment_node_eq:
  "sentiment_analysis_node agent state =
     state\<lparr>sentiment_data := sentiment_data (sentiment_analysis_node agent state)\<rparr>"
  by (simp add: sentiment_analysis_node_def split: sum.splits)


lemma decision_node_eq:
  "generate_decision_node agent state =
     state\<lparr>decision := decision (generate_decision_node agent state)\<rparr>"
  by (simp add: generate_decision_node_def Let_def split: sum.splits option.splits)

lemma notification_node_id: "notification_node agent state = state"
  by (simp add: notification_node_def Let_def)

lemma collect_ignores_llm:
  "collect_data_node (agent\<lparr>llm_generate := g\<rparr>) state = collect_data_node agent state"
  by (simp add: collect_data_node_def collect_panel_def
      cong: sum.case_cong option.case_cong if_cong)

lemma sentiment_ignores_llm:
  "sentiment_analysis_node (agent\<lparr>llm_generate := g\<rparr>) state =
   sentiment_analysis_node agent state"
  by (simp add: sentiment_analysis_node_def)

lemma collect_node_raises:
  "collect_panel agent state = Some e \<Longrightarrow> collect_data_node agent state = Inl e"
  by (simp add: collect_data_node_def)

lemma collect_node_returns:
  "collect_panel agent state = None \<Longrightarrow>
   \<exists>v. collect_data_node agent state = Inr (state\<lparr>price_data := v\<rparr>)"
  by (auto simp: collect_data_node_def split: sum.splits option.splits)


lemma run_nodes_after_collect:
  "collect_data_node agent state = Inr s1 \<Longrightarrow>
   run_nodes agent state =
     Inr (generate_decision_node agent
            (sentiment_analysis_node agent (technical_analysis_node s1)))"
  by (simp add: run_nodes_def Let_def notification_node_id)

lemma run_nodes_raises:
  "collect_data_node agent state = Inl e \<Longrightarrow> run_nodes agent state = Inl e"
  by (simp add: run_nodes_def)




text \<open>
  C8. Each stage writes its own field only: the state a stage returns is the state it
  was given with that one field replaced (collect: \<open>price_data\<close>; technical analysis:
  \<open>technical_indicators\<close>; sentiment: \<open>sentiment_data\<close>; decision: \<open>decision\<close>), and
  the notify stage returns the state as it was. The collect stage is the one that
  can raise, in the panel before its handler, and then it has written nothing.
\<close>

theorem stage_frame:
  "(\<exists>v. collect_data_node agent state =
          (case collect_panel agent state of
             Some e \<Rightarrow> Inl e
           | None \<Rightarrow> Inr (state\<lparr>price_data := v\<rparr>))) \<and>
   (\<exists>v. technical_analysis_node state = state\<lparr>technical_indicators := v\<rparr>) \<and>
   (\<exists>v. sentiment_analysis_node agent state = state\<lparr>sentiment_data := v\<rparr>) \<and>
   (\<exists>v. generate_decision_node agent state = state\<lparr>decision := v\<rparr>) \<and>
   notification_node agent state = state"
proof -
  have 1: "\<exists>v. collect_data_node agent state =
          (case collect_panel agent state of
             Some e \<Rightarrow> Inl e
           | None \<Rightarrow> Inr (state\<lparr>price_data := v\<rparr>))"
  proof (cases "collect_panel agent state")
    case None
    then show ?thesis using collect_node_returns [OF None] by simp
  next
    case (Some e)
    then show ?thesis using collect_node_raises [OF Some] by simp
  qed
  have 2: "\<exists>v. technical_analysis_node state = state\<lparr>technical_indicators := v\<rparr>"
    by (cases "technical_analysis_try (price_data state)") (auto simp: technical_analysis_node_def)
  have 3: "\<exists>v. sentiment_analysis_node agent state = state\<lparr>sentiment_data := v\<rparr>"
    using sentiment_node_eq by blast
  have 4: "\<exists>v. generate_decision_node agent state = state\<lparr>decision := v\<rparr>"
    using decision_node_eq by blast
  have 5: "notification_node agent state = state"
    by (rule notification_node_id)
  from 1 2 3 4 5 show ?thesis by blast
qed

text \<open>
  C9. Two runs that differ in the decision-stage LLM only (its response text, or
  whether it raises) either raise the same exception, in a print that comes before
  the decision stage, or return results that differ in \<open>reasoning\<close> at most: the same
  symbol, recommendation and data, and the confidence is the constant 0.75 in both.
\<close>

theorem decision_text_only_reasoning:
  "(\<exists>e. graph_run (agent\<lparr>llm_generate := g1\<rparr>) symb act = Inl e \<and>
        graph_run (agent\<lparr>llm_generate := g2\<rparr>) symb act = Inl e) \<or>
   (\<exists>r1 r2. graph_run (agent\<lparr>llm_generate := g1\<rparr>) symb act = Inr r1 \<and>
            graph_run (agent\<lparr>llm_generate := g2\<rparr>) symb act = Inr r2 \<and>
            r1 = r2\<lparr>reasoning := reasoning r1\<rparr> \<and>
            recommendation r1 = recommendation r2 \<and>
            confidence r1 = 0.75 \<and> confidence r2 = 0.75)"
proof -
  let ?a1 = "agent\<lparr>llm_generate := g1\<rparr>" and ?a2 = "agent\<lparr>llm_generate := g2\<rparr>"
  let ?start = "Panel (''[bold]Starting analysis for '' @ symb @ ''[/bold]'')"
  show ?thesis
  proof (cases "graph_console agent ?start")
    case (Some e)
    then show ?thesis by (simp add: graph_run_def)
  next
    case None
    note start = this
    show ?thesis
    proof (cases "collect_data_node agent (initial_state symb act)")
      case (Inl e)
      then have "run_nodes ?a1 (initial_state symb act) = Inl e"
        and "run_nodes ?a2 (initial_state symb act) = Inl e"
        by (simp_all add: run_nodes_raises collect_ignores_llm)
      with start show ?thesis by (simp add: graph_run_def)
    next
      case (Inr s1)
      define pre where "pre = sentiment_analysis_node agent (technical_analysis_node s1)"
      define d1 where "d1 = decision (generate_decision_node ?a1 pre)"
      define d2 where "d2 = decision (generate_decision_node ?a2 pre)"
      have "run_nodes ?a1 (initial_state symb act) = Inr (generate_decision_node ?a1 pre)"
        using Inr by (simp add: run_nodes_after_collect collect_ignores_llm
            sentiment_ignores_llm pre_def)
      then have r1: "run_nodes ?a1 (initial_state symb act) = Inr (pre\<lparr>decision := d1\<rparr>)"
        unfolding d1_def using decision_node_eq [of ?a1 pre] by simp
      have "run_nodes ?a2 (initial_state symb act) = Inr (generate_decision_node ?a2 pre)"
        using Inr by (simp add: run_nodes_after_collect collect_ignores_llm
            sentiment_ignores_llm pre_def)
      then have r2: "run_nodes ?a2 (initial_state symb act) = Inr (pre\<lparr>decision := d2\<rparr>)"
        unfolding d2_def using decision_node_eq [of ?a2 pre] by simp
      from start r1 r2 show ?thesis
        by (simp add: graph_run_def)
    qed
  qed
qed

section \<open>Properties of the notification tool\<close>

text \<open>
  C10 (amended). For every message and every channel name other than "console",
  "slack" and "discord", \<open>NotificationTool.run\<close> does not raise and falls back to the
  console sender. If the print of the message panel returns, it returns the sender's
  mapping: success True, channel "console", and the message. If the print raises,
  the handler of \<open>run\<close> reports the failure: success False, the requested channel
  name, and the text of the exception. As the claim is written, with no failure
  report for any message, it fails for a message that the console rejects (the
  counterexample).
\<close>

theorem unknown_channel_console:
  assumes "channel \<notin> {''console'', ''slack'', ''discord''}"
  shows "NotificationTool_run tool message channel =
           (case tool_console tool (Panel message) of
              None \<Rightarrow>
                [(''success'', PBool True), (''channel'', PStr ''console''),
                 (''message'', PStr message)]
            | Some e \<Rightarrow>
                [(''success'', PBool False), (''channel'', PStr channel),
                 (''error'', PStr (str_error e))])"
  using assms by (simp add: NotificationTool_run_def send_console_def split: option.splits)

theorem unknown_channel_console_witness:
  "''email'' \<notin> {''console'', ''slack'', ''discord''} \<and>
   tool_console (example_notifier markup_console) (Panel ''Test message'') = None \<and>
   NotificationTool_run (example_notifier markup_console) ''Test message'' ''email'' =
     [(''success'', PBool True), (''channel'', PStr ''console''),
      (''message'', PStr ''Test message'')]"
proof -
  have c: "''email'' \<notin> {''console'', ''slack'', ''discord''}"
    by simp
  have p: "tool_console (example_notifier markup_console) (Panel ''Test message'') = None"
    by code_simp
  from unknown_channel_console [OF c, of "example_notifier markup_console" "''Test message''"]
  show ?thesis
    using c p by simp
qed

theorem unknown_channel_failure_counterexample:
  "''email'' \<notin> {''console'', ''slack'', ''discord''} \<and>
   NotificationTool_run (example_notifier markup_console) ''[/x]'' ''email'' =
     [(''success'', PBool False), (''channel'', PStr ''email''),
      (''error'', PStr ''closing tag [/x] does not match any open tag'')]"
proof -
  have "tool_console (example_notifier markup_console) (Panel ''[/x]'') =
          Some (MarkupError ''closing tag [/x] does not match any open tag'')"
    by code_simp
  then show ?thesis
    by (simp add: NotificationTool_run_def send_console_def)
qed

section \<open>Properties of the string operations\<close>

lemma py_split_not_Nil: "py_split s sep \<noteq> []"
  by (subst py_split.simps) (simp split: option.splits prod.splits)

lemma py_index_0_split: "py_index (py_split s sep) 0 = Inr (hd (py_split s sep))"
  using py_split_not_Nil [of s sep]
  by (cases "py_split s sep") (simp_all add: py_index_def)

lemma py_contains_partition: "py_contains sep s \<longleftrightarrow> py_partition s sep \<noteq> None"
  by (induction s) (simp_all split: option.splits)

lemma py_startswith_length: "py_startswith s p \<Longrightarrow> length p \<le> length s"
proof -
  assume "py_startswith s p"
  then have "length (take (length p) s) = length p"
    by (simp only: py_startswith_def)
  then show ?thesis by simp
qed

lemma py_startswith_append:
  "py_startswith s p \<Longrightarrow> s = p @ drop (length p) s"
proof -
  assume "py_startswith s p"
  then have "take (length p) s = p"
    by (simp only: py_startswith_def)
  then have "take (length p) s @ drop (length p) s = p @ drop (length p) s"
    by simp
  then show ?thesis by (simp only: append_take_drop_id)
qed

lemma py_contains_length: "py_contains sep s \<Longrightarrow> length sep \<le> length s"
proof (induction s)
  case Nil
  then show ?case by simp
next
  case (Cons c cs)
  from Cons.prems have "py_startswith (c # cs) sep \<or> py_contains sep cs"
    by simp
  then show ?case
  proof
    assume "py_startswith (c # cs) sep"
    then show ?thesis by (rule py_startswith_length)
  next
    assume "py_contains sep cs"
    then have "length sep \<le> length cs" by (rule Cons.IH)
    then show ?thesis by simp
  qed
qed

lemma py_partition_Cons:
  "py_partition (c # cs) sep = Some (b, a) \<Longrightarrow> \<not> py_startswith (c # cs) sep \<Longrightarrow>
   \<exists>b'. py_partition cs sep = Some (b', a) \<and> b = c # b'"
  by (simp split: option.splits prod.splits)

lemma py_partition_append:
  "py_partition s sep = Some (b, a) \<Longrightarrow> s = b @ sep @ a"
proof (induction s arbitrary: b)
  case Nil
  then show ?case by (simp split: if_splits)
next
  case (Cons c cs)
  show ?case
  proof (cases "py_startswith (c # cs) sep")
    case True
    with Cons.prems have "b = []" and a: "a = drop (length sep) (c # cs)"
      by simp_all
    moreover from True have "c # cs = sep @ drop (length sep) (c # cs)"
      by (rule py_startswith_append)
    ultimately show ?thesis by (simp only: append_Nil a)
  next
    case False
    with Cons.prems obtain b' where b': "py_partition cs sep = Some (b', a)" "b = c # b'"
      using py_partition_Cons by blast
    from Cons.IH [OF b'(1)] b'(2) show ?thesis by simp
  qed
qed

lemma py_partition_first:
  "py_partition s sep = Some (b, a) \<Longrightarrow> sep \<noteq> [] \<Longrightarrow> \<not> py_contains sep (b @ butlast sep)"
proof (induction s arbitrary: b)
  case Nil
  then show ?case by (simp split: if_splits)
next
  case (Cons c cs)
  show ?case
  proof (cases "py_startswith (c # cs) sep")
    case True
    with Cons.prems have "b = []" by simp
    moreover have "\<not> py_contains sep (butlast sep)"
    proof
      assume "py_contains sep (butlast sep)"
      then have "length sep \<le> length (butlast sep)" by (rule py_contains_length)
      then have "length sep \<le> length sep - 1" by (simp only: length_butlast)
      moreover have "0 < length sep"
        using Cons.prems(2) by simp
      ultimately show False by arith
    qed
    ultimately show ?thesis by simp
  next
    case False
    with Cons.prems obtain b' where b': "py_partition cs sep = Some (b', a)" "b = c # b'"
      using py_partition_Cons by blast
    from Cons.IH [OF b'(1) Cons.prems(2)] have ih: "\<not> py_contains sep (b' @ butlast sep)" .
    from py_partition_append [OF b'(1)] have cs: "cs = b' @ sep @ a" .
    have sep: "sep = butlast sep @ [last sep]"
      using Cons.prems(2) by simp
    have "c # cs = (c # b' @ butlast sep) @ (last sep # a)"
      by (subst cs, subst sep) simp
    then have "take (length sep) (c # cs) = take (length sep) ((c # b' @ butlast sep) @ (last sep # a))"
      by simp
    also have "\<dots> = take (length sep) (c # b' @ butlast sep)"
      by (simp del: append_Cons)
    finally have "take (length sep) (c # cs) = take (length sep) (c # b' @ butlast sep)" .
    with False have "\<not> py_startswith (c # b' @ butlast sep) sep"
      unfolding py_startswith_def by metis
    with ih b'(2) show ?thesis by simp
  qed
qed

lemma py_split_Some:
  "sep \<noteq> [] \<Longrightarrow> py_partition s sep = Some (b, a) \<Longrightarrow> py_split s sep = b # py_split a sep"
  by (subst py_split.simps) simp

lemma hd_py_split:
  "sep \<noteq> [] \<Longrightarrow>
   hd (py_split s sep) = (case py_partition s sep of None \<Rightarrow> s | Some (mid, rest) \<Rightarrow> mid)"
  by (subst py_split.simps) (simp split: option.splits prod.splits)

lemma py_index_1_split:
  assumes "sep \<noteq> []" and "py_partition s sep = Some (b, a)"
  shows "py_index (py_split s sep) 1 =
           Inr (case py_partition a sep of None \<Rightarrow> a | Some (mid, rest) \<Rightarrow> mid)"
proof -
  have "py_split s sep = b # py_split a sep"
    using assms by (rule py_split_Some)
  moreover have "py_split a sep \<noteq> []"
    by (rule py_split_not_Nil)
  ultimately have "py_index (py_split s sep) 1 = Inr (hd (py_split a sep))"
    by (cases "py_split a sep") (simp_all add: py_index_def)
  then show ?thesis
    using hd_py_split [OF assms(1), of a] by simp
qed

section \<open>Properties of the ReAct loop\<close>

lemma for_loop_stopped: "status st \<noteq> Iterating \<Longrightarrow> for_loop agent q i n st = st"
  by (cases n; cases "status st") simp_all

lemma for_loop_add:
  "for_loop agent q i (n + m) st = for_loop agent q (i + n) m (for_loop agent q i n st)"
proof (induction n arbitrary: i st)
  case 0
  then show ?case by simp
next
  case (Suc n)
  show ?case
  proof (cases "status st = Iterating")
    case True
    then show ?thesis using Suc.IH [of "Suc i"] by simp
  next
    case False
    then show ?thesis by (simp add: for_loop_stopped del: for_loop.simps)
  qed
qed

lemma run_upto_Suc:
  assumes "k < nat (max_iterations agent)"
  shows "run_upto agent old q (Suc k) =
           (case status (run_upto agent old q k) of
              Iterating \<Rightarrow> iteration agent q k (run_upto agent old q k)
            | _ \<Rightarrow> run_upto agent old q k)"
proof -
  have "for_loop agent q 0 (k + 1) (start agent old q) =
          for_loop agent q (0 + k) 1 (for_loop agent q 0 k (start agent old q))"
    by (rule for_loop_add)
  moreover have "min (Suc k) (nat (max_iterations agent)) = k + 1"
    and "min k (nat (max_iterations agent)) = k"
    using assms by simp_all
  ultimately show ?thesis
    by (simp add: run_upto_def split: status.splits)
qed

lemma run_from_upto:
  assumes "k \<le> nat (max_iterations agent)"
  shows "for_loop agent q 0 (nat (max_iterations agent)) (start agent old q) =
           for_loop agent q k (nat (max_iterations agent) - k) (run_upto agent old q k)"
proof -
  have "for_loop agent q 0 (k + (nat (max_iterations agent) - k)) (start agent old q) =
          for_loop agent q (0 + k) (nat (max_iterations agent) - k)
            (for_loop agent q 0 k (start agent old q))"
    by (rule for_loop_add)
  moreover have "k + (nat (max_iterations agent) - k) = nat (max_iterations agent)"
    and "min k (nat (max_iterations agent)) = k"
    using assms by simp_all
  ultimately show ?thesis
    by (simp add: run_upto_def)
qed

lemma start_history: "history (start agent old q) = []"
  by (simp add: start_def reset_def split: option.splits)

lemma start_llm_calls: "llm_calls (start agent old q) = 0"
  by (simp add: start_def reset_def split: option.splits)

lemma start_rendered:
  "react_console agent (Panel (''[bold]'' @ q @ ''[/bold]'')) = None \<Longrightarrow>
   start agent old q = reset old"
  by (simp add: start_def)

lemma iteration_raise:
  "call_llm agent i (react_prompt agent q (history st)) = Inl e \<Longrightarrow>
   iteration agent q i st = st\<lparr>llm_calls := Suc (llm_calls st), status := Raised e\<rparr>"
  by (simp add: iteration_def Let_def)

lemma iteration_continue:
  "call_llm agent i (react_prompt agent q (history st)) = Inr response \<Longrightarrow>
   \<not> py_contains ''Final Answer:'' response \<Longrightarrow>
   iteration agent q i st =
     (case display_step agent (make_step agent i response) of
        None \<Rightarrow>
          st\<lparr>llm_calls := Suc (llm_calls st),
             history := history st @ [make_step agent i response]\<rparr>
      | Some e \<Rightarrow>
          st\<lparr>llm_calls := Suc (llm_calls st),
             history := history st @ [make_step agent i response],
             status := Raised e\<rparr>)"
  by (simp add: iteration_def Let_def split: option.splits)

lemma iteration_final:
  assumes "call_llm agent i (react_prompt agent q (history st)) = Inr response"
    and "py_partition response ''Final Answer:'' = Some (before, after)"
  shows "iteration agent q i st =
     (let answer = py_strip (case py_partition after ''Final Answer:'' of
                               None \<Rightarrow> after | Some (mid, rest) \<Rightarrow> mid)
      in case react_console agent (Markdown answer) of
           None \<Rightarrow> st\<lparr>llm_calls := Suc (llm_calls st), status := Returned answer\<rparr>
         | Some e \<Rightarrow> st\<lparr>llm_calls := Suc (llm_calls st), status := Raised e\<rparr>)"
proof -
  have c: "py_contains ''Final Answer:'' response"
    using assms(2) by (simp add: py_contains_partition)
  have "py_index (py_split response ''Final Answer:'') 1 =
          Inr (case py_partition after ''Final Answer:'' of
                 None \<Rightarrow> after | Some (mid, rest) \<Rightarrow> mid)"
    using assms(2) by (intro py_index_1_split) simp_all
  then show ?thesis
    using assms(1) c by (simp add: iteration_def Let_def split: option.splits)
qed

lemma iteration_history:
  "history (iteration agent q i st) = history st \<or>
   (\<exists>step. history (iteration agent q i st) = history st @ [step])"
  by (simp add: iteration_def Let_def split: sum.splits option.splits)

lemma iteration_history_length:
  "length (history (iteration agent q i st)) \<le> Suc (length (history st))"
  using iteration_history [of agent q i st] by auto

lemma for_loop_history_length:
  "length (history (for_loop agent q i n st)) \<le> length (history st) + n"
proof (induction n arbitrary: i st)
  case 0
  then show ?case by simp
next
  case (Suc n)
  show ?case
  proof (cases "status st = Iterating")
    case True
    have "length (history (for_loop agent q (Suc i) n (iteration agent q i st)))
            \<le> length (history (iteration agent q i st)) + n"
      by (rule Suc.IH)
    also have "\<dots> \<le> Suc (length (history st)) + n"
      using iteration_history_length [of agent q i st] by simp
    finally show ?thesis using True by simp
  next
    case False
    then show ?thesis by (simp add: for_loop_stopped del: for_loop.simps)
  qed
qed

lemma run_history:
  "history (run agent old q) = history (run_upto agent old q (nat (max_iterations agent)))"
  by (simp add: run_def run_upto_def Let_def split: status.splits)

lemma parse_response_of_action:
  "parse_action agent response = Inr (a, inp) \<Longrightarrow>
   parse_response agent response =
     Inr (py_strip (py_replace (hd (py_split response ''Action:'')) ''Thought:'' []), a, inp)"
  by (simp add: parse_response_def py_index_0_split Let_def)

lemma make_step_dispatch:
  assumes "parse_action agent response = Inr (Some name, inp)"
    and "name \<noteq> []" and "py_truthy inp"
  shows "make_step agent i response =
           \<lparr>thought = py_strip (py_replace (hd (py_split response ''Action:'')) ''Thought:'' []),
            action = Some name, action_input = inp,
            observation = Some (execute_tool agent i name inp)\<rparr>"
  using assms(2,3)
  by (simp add: make_step_def parse_response_of_action [OF assms(1)])

text \<open>
  C2 (amended). A response that contains "Final Answer:" ends the run at once, and no
  step is appended for that iteration. What \<open>run\<close> returns is the text between the
  first occurrence of the marker and the next occurrence, or the end of the response
  if there is none, stripped: \<open>split\<close> cuts at every occurrence and the code takes
  the element with index 1. Here \<open>before\<close> is the text up to the first occurrence,
  which starts no earlier. The answer is printed before it is returned; if that print
  raises, \<open>run\<close> raises instead. That the loop has reached iteration \<open>k\<close> says that
  the question panel and the displays of the earlier steps have been printed. For a
  first response that ends with "Final Answer: 42" and has the marker once, \<open>run\<close>
  returns "42" with an empty history (the witness). As the claim is written, with the
  whole text after the first occurrence, it fails for a response with a second marker
  (the counterexample).
\<close>

theorem final_answer_segment_returned:
  assumes "int k < max_iterations agent"
    and "status (run_upto agent old q k) = Iterating"
    and "call_llm agent k (react_prompt agent q (history (run_upto agent old q k))) = Inr response"
    and "py_contains ''Final Answer:'' response"
  shows "\<exists>before after.
           py_partition response ''Final Answer:'' = Some (before, after) \<and>
           response = before @ ''Final Answer:'' @ after \<and>
           \<not> py_contains ''Final Answer:'' (before @ butlast ''Final Answer:'') \<and>
           run agent old q =
             (let answer = py_strip (case py_partition after ''Final Answer:'' of
                                       None \<Rightarrow> after | Some (mid, rest) \<Rightarrow> mid)
              in (run_upto agent old q k)
                   \<lparr>llm_calls := Suc (llm_calls (run_upto agent old q k)),
                    status := (case react_console agent (Markdown answer) of
                                 None \<Rightarrow> Returned answer
                               | Some e \<Rightarrow> Raised e)\<rparr>) \<and>
           history (run agent old q) = history (run_upto agent old q k)"
proof -
  from assms(4) obtain before after
    where p: "py_partition response ''Final Answer:'' = Some (before, after)"
    by (auto simp: py_contains_partition)
  define st where "st = run_upto agent old q k"
  define answer where "answer = py_strip (case py_partition after ''Final Answer:'' of
                                            None \<Rightarrow> after | Some (mid, rest) \<Rightarrow> mid)"
  define st' where "st' = st\<lparr>llm_calls := Suc (llm_calls st),
                             status := (case react_console agent (Markdown answer) of
                                          None \<Rightarrow> Returned answer
                                        | Some e \<Rightarrow> Raised e)\<rparr>"
  have it: "iteration agent q k st = st'"
    using iteration_final [OF assms(3) p]
    by (simp add: st'_def answer_def st_def Let_def split: option.splits)
  have stop: "status st' \<noteq> Iterating"
    by (simp add: st'_def split: option.splits)
  have k: "k < nat (max_iterations agent)"
    using assms(1) by simp
  then obtain m where m: "nat (max_iterations agent) - k = Suc m"
    by (metis Suc_diff_Suc)
  have "for_loop agent q 0 (nat (max_iterations agent)) (start agent old q) =
          for_loop agent q k (Suc m) st"
    unfolding st_def m [symmetric] using k by (intro run_from_upto) simp
  also have "\<dots> = for_loop agent q (Suc k) m st'"
    using assms(2) by (simp add: st_def [symmetric] it)
  also have "\<dots> = st'"
    using stop by (rule for_loop_stopped)
  finally have run: "run agent old q = st'"
    using stop by (simp add: run_def Let_def split: status.splits)
  have A: "response = before @ ''Final Answer:'' @ after"
    using p by (rule py_partition_append)
  have B: "\<not> py_contains ''Final Answer:'' (before @ butlast ''Final Answer:'')"
    using p by (rule py_partition_first) simp
  have C: "run agent old q =
             (let answer = py_strip (case py_partition after ''Final Answer:'' of
                                       None \<Rightarrow> after | Some (mid, rest) \<Rightarrow> mid)
              in (run_upto agent old q k)
                   \<lparr>llm_calls := Suc (llm_calls (run_upto agent old q k)),
                    status := (case react_console agent (Markdown answer) of
                                 None \<Rightarrow> Returned answer
                               | Some e \<Rightarrow> Raised e)\<rparr>)"
    unfolding run st'_def st_def answer_def Let_def by (rule refl)
  have D: "history (run agent old q) = history (run_upto agent old q k)"
    unfolding run st'_def st_def by simp
  from p A B C D show ?thesis
    by blast
qed

theorem final_answer_segment_returned_witness:
  "int 0 < max_iterations (scripted_agent markup_console 10
      (''Thought: I now know the final answer'' @ [nl] @ ''Final Answer: 42'')) \<and>
   status (run_upto (scripted_agent markup_console 10
      (''Thought: I now know the final answer'' @ [nl] @ ''Final Answer: 42''))
      [] ''What is the answer?'' 0) = Iterating \<and>
   py_contains ''Final Answer:''
      (''Thought: I now know the final answer'' @ [nl] @ ''Final Answer: 42'') \<and>
   run (scripted_agent markup_console 10
          (''Thought: I now know the final answer'' @ [nl] @ ''Final Answer: 42''))
       [] ''What is the answer?''
     = \<lparr>history = [], status = Returned ''42'', llm_calls = 1\<rparr>"
proof -
  define r where "r = ''Thought: I now know the final answer'' @ [nl] @ ''Final Answer: 42''"
  define agent where "agent = scripted_agent markup_console 10 r"
  have h1: "int 0 < max_iterations agent"
    by (simp add: agent_def scripted_agent_def)
  have qp: "react_console agent (Panel (''[bold]'' @ ''What is the answer?'' @ ''[/bold]'')) = None"
    unfolding agent_def by code_simp
  have u: "run_upto agent [] ''What is the answer?'' 0 = reset []"
    by (simp add: run_upto_def start_rendered [OF qp])
  have h2: "status (run_upto agent [] ''What is the answer?'' 0) = Iterating"
    by (simp add: u reset_def)
  have h3: "call_llm agent 0
      (react_prompt agent ''What is the answer?''
         (history (run_upto agent [] ''What is the answer?'' 0))) = Inr r"
    by (simp add: agent_def scripted_agent_def)
  have p: "py_partition r ''Final Answer:'' =
             Some (''Thought: I now know the final answer'' @ [nl], '' 42'')"
    unfolding r_def by code_simp
  have h4: "py_contains ''Final Answer:'' r"
    unfolding r_def by code_simp
  have s: "py_strip (case py_partition '' 42'' ''Final Answer:'' of
                       None \<Rightarrow> '' 42'' | Some (mid, rest) \<Rightarrow> mid) = ''42''"
    by code_simp
  have md: "react_console agent (Markdown ''42'') = None"
    unfolding agent_def by code_simp
  from final_answer_segment_returned [OF h1 h2 h3 h4] obtain before after
    where a: "py_partition r ''Final Answer:'' = Some (before, after)"
      and b: "run agent [] ''What is the answer?'' =
             (let answer = py_strip (case py_partition after ''Final Answer:'' of
                                       None \<Rightarrow> after | Some (mid, rest) \<Rightarrow> mid)
              in (run_upto agent [] ''What is the answer?'' 0)
                   \<lparr>llm_calls := Suc (llm_calls (run_upto agent [] ''What is the answer?'' 0)),
                    status := (case react_console agent (Markdown answer) of
                                 None \<Rightarrow> Returned answer
                               | Some e \<Rightarrow> Raised e)\<rparr>)"
    by blast
  from a p have "after = '' 42''"
    by simp
  with b have "run agent [] ''What is the answer?'' =
          \<lparr>history = [], status = Returned ''42'', llm_calls = 1\<rparr>"
    by (simp only: s u Let_def md) (simp add: reset_def)
  with h1 h2 h4 show ?thesis
    unfolding agent_def r_def by simp
qed

theorem final_answer_trailing_text_counterexample:
  "py_contains ''Final Answer:'' ''Final Answer: 1 Final Answer: 2'' \<and>
   py_partition ''Final Answer: 1 Final Answer: 2'' ''Final Answer:''
     = Some ([], '' 1 Final Answer: 2'') \<and>
   py_strip '' 1 Final Answer: 2'' = ''1 Final Answer: 2'' \<and>
   status (run (scripted_agent markup_console 10 ''Final Answer: 1 Final Answer: 2'') []
             ''What is the answer?'')
     = Returned ''1'' \<and>
   status (run (scripted_agent markup_console 10 ''Final Answer: 1 Final Answer: 2'') []
             ''What is the answer?'')
     \<noteq> Returned ''1 Final Answer: 2''"
  by code_simp

text \<open>
  C4 (amended). The tool is called only if the extracted action name is not empty and
  the extracted input is true in Python's sense. Then the step that the iteration
  appends has the result text of \<open>_execute_tool\<close> as its observation, and when a tool
  is registered under exactly that name, the input is a dictionary and the tool
  returns, that text is \<open>str\<close> of the tool's result. The step is appended before it
  is displayed, so it is in the history also when the display raises. As the claim
  is written, for every extracted name and input, it fails for the input \<open>{}\<close>: it is
  decoded, it is false, no tool is called and the observation stays None (the
  counterexample).
\<close>

theorem tool_dispatch:
  assumes "call_llm agent i (react_prompt agent q (history st)) = Inr response"
    and "\<not> py_contains ''Final Answer:'' response"
    and "parse_action agent response = Inr (Some name, inp)"
    and "name \<noteq> []"
    and "py_truthy inp"
  shows "(\<exists>th. let step = \<lparr>thought = th, action = Some name, action_input = inp,
                          observation = Some (execute_tool agent i name inp)\<rparr>
              in iteration agent q i st =
                   (case display_step agent step of
                      None \<Rightarrow>
                        st\<lparr>llm_calls := Suc (llm_calls st), history := history st @ [step]\<rparr>
                    | Some e \<Rightarrow>
                        st\<lparr>llm_calls := Suc (llm_calls st), history := history st @ [step],
                           status := Raised e\<rparr>)) \<and>
         (\<forall>tool kwargs result.
            map_of (tools agent) name = Some tool \<and> inp = PDict kwargs \<and>
            tool_run tool i kwargs = Inr result \<longrightarrow>
            execute_tool agent i name inp = str_result agent result)"
proof -
  have "iteration agent q i st =
     (case display_step agent (make_step agent i response) of
        None \<Rightarrow>
          st\<lparr>llm_calls := Suc (llm_calls st),
             history := history st @ [make_step agent i response]\<rparr>
      | Some e \<Rightarrow>
          st\<lparr>llm_calls := Suc (llm_calls st),
             history := history st @ [make_step agent i response],
             status := Raised e\<rparr>)"
    using assms(1,2) by (rule iteration_continue)
  then have "\<exists>th. let step = \<lparr>thought = th, action = Some name, action_input = inp,
                          observation = Some (execute_tool agent i name inp)\<rparr>
              in iteration agent q i st =
                   (case display_step agent step of
                      None \<Rightarrow>
                        st\<lparr>llm_calls := Suc (llm_calls st), history := history st @ [step]\<rparr>
                    | Some e \<Rightarrow>
                        st\<lparr>llm_calls := Suc (llm_calls st), history := history st @ [step],
                           status := Raised e\<rparr>)"
    unfolding Let_def by (simp only: make_step_dispatch [OF assms(3,4,5)]) blast
  moreover have "\<forall>tool kwargs result.
            map_of (tools agent) name = Some tool \<and> inp = PDict kwargs \<and>
            tool_run tool i kwargs = Inr result \<longrightarrow>
            execute_tool agent i name inp = str_result agent result"
    by (simp add: execute_tool_def)
  ultimately show ?thesis by blast
qed

theorem tool_dispatch_witness:
  "call_llm (scripted_agent markup_console 3
              (''Thought: look it up'' @ [nl] @ ''Action: search'' @ [nl]
               @ ''Action Input: bitcoin price'')) 0
      (react_prompt (scripted_agent markup_console 3
              (''Thought: look it up'' @ [nl] @ ''Action: search'' @ [nl]
               @ ''Action Input: bitcoin price'')) ''What is the price of BTC?'' (history (reset [])))
     = Inr (''Thought: look it up'' @ [nl] @ ''Action: search'' @ [nl]
              @ ''Action Input: bitcoin price'') \<and>
   \<not> py_contains ''Final Answer:'' (''Thought: look it up'' @ [nl] @ ''Action: search'' @ [nl]
              @ ''Action Input: bitcoin price'') \<and>
   parse_action (scripted_agent markup_console 3
              (''Thought: look it up'' @ [nl] @ ''Action: search'' @ [nl]
               @ ''Action Input: bitcoin price''))
       (''Thought: look it up'' @ [nl] @ ''Action: search'' @ [nl] @ ''Action Input: bitcoin price'')
     = Inr (Some ''search'', PDict [(''query'', PStr ''bitcoin price'')]) \<and>
   ''search'' \<noteq> [] \<and>
   py_truthy (PDict [(''query'', PStr ''bitcoin price'')]) \<and>
   map_of (tools (scripted_agent markup_console 3
              (''Thought: look it up'' @ [nl] @ ''Action: search'' @ [nl]
               @ ''Action Input: bitcoin price''))) ''search'' = Some search_tool \<and>
   tool_run search_tool 0 [(''query'', PStr ''bitcoin price'')] = Inr (PStr ''found'') \<and>
   history (iteration (scripted_agent markup_console 3
              (''Thought: look it up'' @ [nl] @ ''Action: search'' @ [nl]
               @ ''Action Input: bitcoin price'')) ''What is the price of BTC?'' 0 (reset []))
     = [\<lparr>thought = ''look it up'', action = Some ''search'',
         action_input = PDict [(''query'', PStr ''bitcoin price'')],
         observation = Some ''found''\<rparr>]"
proof -
  define r where "r = ''Thought: look it up'' @ [nl] @ ''Action: search'' @ [nl]
              @ ''Action Input: bitcoin price''"
  define agent where "agent = scripted_agent markup_console 3 r"
  define inp where "inp = PDict [(''query'', PStr ''bitcoin price'')]"
  have h1: "call_llm agent 0
      (react_prompt agent ''What is the price of BTC?'' (history (reset []))) = Inr r"
    by (simp add: agent_def scripted_agent_def)
  have h2: "\<not> py_contains ''Final Answer:'' r"
    unfolding r_def by code_simp
  have h3: "parse_action agent r = Inr (Some ''search'', inp)"
    unfolding agent_def r_def inp_def by code_simp
  have h4: "''search'' \<noteq> []"
    by simp
  have h5: "py_truthy inp"
    by (simp add: inp_def)
  have t: "map_of (tools agent) ''search'' = Some search_tool"
    by (simp add: agent_def scripted_agent_def)
  have tr: "tool_run search_tool 0 [(''query'', PStr ''bitcoin price'')] = Inr (PStr ''found'')"
    by (simp add: search_tool_def)
  have sr: "str_result agent (PStr ''found'') = ''found''"
    by (simp add: agent_def scripted_agent_def py_format_def)
  from tool_dispatch [OF h1 h2 h3 h4 h5] obtain th
    where it: "history (iteration agent ''What is the price of BTC?'' 0 (reset [])) =
            history (reset []) @
                 [\<lparr>thought = th, action = Some ''search'', action_input = inp,
                   observation = Some (execute_tool agent 0 ''search'' inp)\<rparr>]"
      and ex: "\<forall>tool kwargs result.
            map_of (tools agent) ''search'' = Some tool \<and> inp = PDict kwargs \<and>
            tool_run tool 0 kwargs = Inr result \<longrightarrow>
            execute_tool agent 0 ''search'' inp = str_result agent result"
    by (auto simp: Let_def split: option.splits)
  from ex t tr have e: "execute_tool agent 0 ''search'' inp = ''found''"
    using sr by (metis inp_def)
  have th: "thought (make_step agent 0 r) = ''look it up''"
    unfolding agent_def r_def by code_simp
  have "history (iteration agent ''What is the price of BTC?'' 0 (reset [])) =
          history (reset []) @ [make_step agent 0 r]"
    by (simp add: iteration_continue [OF h1 h2] split: option.splits)
  with it have "make_step agent 0 r =
      \<lparr>thought = th, action = Some ''search'', action_input = inp,
        observation = Some (execute_tool agent 0 ''search'' inp)\<rparr>"
    by simp
  with th have "th = ''look it up''"
    by simp
  with it e have "history (iteration agent ''What is the price of BTC?'' 0 (reset [])) =
      [\<lparr>thought = ''look it up'', action = Some ''search'', action_input = inp,
        observation = Some ''found''\<rparr>]"
    by (simp add: reset_def)
  with h1 h2 h3 h5 t tr show ?thesis
    unfolding agent_def r_def inp_def by simp
qed

theorem tool_dispatch_counterexample:
  "parse_action (scripted_agent markup_console 1
              (''Thought: x'' @ [nl] @ ''Action: search'' @ [nl] @ ''Action Input: {}''))
       (''Thought: x'' @ [nl] @ ''Action: search'' @ [nl] @ ''Action Input: {}'')
     = Inr (Some ''search'', PDict []) \<and>
   map_of (tools (scripted_agent markup_console 1
              (''Thought: x'' @ [nl] @ ''Action: search'' @ [nl] @ ''Action Input: {}'')))
     ''search'' = Some search_tool \<and>
   tool_run search_tool 0 [] = Inr (PStr ''found'') \<and>
   history (run (scripted_agent markup_console 1
              (''Thought: x'' @ [nl] @ ''Action: search'' @ [nl] @ ''Action Input: {}''))
            [] ''What is the price of BTC?'')
     = [\<lparr>thought = ''x'', action = Some ''search'', action_input = PDict [],
         observation = None\<rparr>]"
proof -
  have "parse_action (scripted_agent markup_console 1
              (''Thought: x'' @ [nl] @ ''Action: search'' @ [nl] @ ''Action Input: {}''))
       (''Thought: x'' @ [nl] @ ''Action: search'' @ [nl] @ ''Action Input: {}'')
     = Inr (Some ''search'', PDict [])"
    by code_simp
  moreover have "map_of (tools (scripted_agent markup_console 1
              (''Thought: x'' @ [nl] @ ''Action: search'' @ [nl] @ ''Action Input: {}'')))
     ''search'' = Some search_tool"
    by (simp add: scripted_agent_def)
  moreover have "tool_run search_tool 0 [] = Inr (PStr ''found'')"
    by (simp add: search_tool_def)
  moreover have "history (run (scripted_agent markup_console 1
              (''Thought: x'' @ [nl] @ ''Action: search'' @ [nl] @ ''Action Input: {}''))
            [] ''What is the price of BTC?'')
     = [\<lparr>thought = ''x'', action = Some ''search'', action_input = PDict [],
         observation = None\<rparr>]"
    by code_simp
  ultimately show ?thesis by simp
qed

text \<open>
  C5. The history is empty when the loop of \<open>run\<close> starts, whatever it was before;
  an iteration leaves it as it is or appends one step; after \<open>k\<close> passes it has at
  most \<open>k\<close> entries; and for a budget that is not negative its length is at most
  \<open>max_iterations\<close> at every point of the run and when \<open>run\<close> has returned or raised.
  (With a negative budget the loop body never runs and the history stays empty.)
\<close>

theorem history_bounded:
  "history (run_upto agent old q 0) = [] \<and>
   (\<forall>i st. history (iteration agent q i st) = history st \<or>
            (\<exists>step. history (iteration agent q i st) = history st @ [step])) \<and>
   (\<forall>k. length (history (run_upto agent old q k)) \<le> k) \<and>
   history (run agent old q) = history (run_upto agent old q (nat (max_iterations agent))) \<and>
   (0 \<le> max_iterations agent \<longrightarrow>
      (\<forall>k. int (length (history (run_upto agent old q k))) \<le> max_iterations agent) \<and>
      int (length (history (run agent old q))) \<le> max_iterations agent)"
proof -
  have a: "history (run_upto agent old q 0) = []"
    by (simp add: run_upto_def start_history)
  have b: "\<forall>i st. history (iteration agent q i st) = history st \<or>
            (\<exists>step. history (iteration agent q i st) = history st @ [step])"
    using iteration_history by blast
  have len: "length (history (run_upto agent old q k)) \<le> min k (nat (max_iterations agent))" for k
    using for_loop_history_length [of agent q 0 "min k (nat (max_iterations agent))"
        "start agent old q"]
    by (simp add: run_upto_def start_history)
  have c: "\<forall>k. length (history (run_upto agent old q k)) \<le> k"
    using len by (meson le_trans min.cobounded1)
  have d: "history (run agent old q) = history (run_upto agent old q (nat (max_iterations agent)))"
    by (rule run_history)
  have e: "int (length (history (run_upto agent old q k))) \<le> max_iterations agent"
    if "0 \<le> max_iterations agent" for k
  proof -
    have "length (history (run_upto agent old q k)) \<le> nat (max_iterations agent)"
      using len [of k] by simp
    with that show ?thesis by linarith
  qed
  from a b c d e show ?thesis
    by simp
qed

theorem history_bounded_witness:
  "(0::int) \<le> max_iterations (scripted_agent markup_console 3 ''Thought: wait'') \<and>
   int (length (history (run (scripted_agent markup_console 3 ''Thought: wait'') []
                           ''What is the price of BTC?'')))
     \<le> max_iterations (scripted_agent markup_console 3 ''Thought: wait'') \<and>
   max_iterations (scripted_agent markup_console 3 ''Thought: wait'') = 3"
  using history_bounded [of "scripted_agent markup_console 3 ''Thought: wait''" "[]"
      "''What is the price of BTC?''"]
  by (simp add: scripted_agent_def)





end
